theory Spec2Isabelle
  imports Complex_Main
begin

section \<open>Gravity simulation of page elements: data model\<close>

text \<open>
  The script in \<^verbatim>\<open>src/javascript.js\<close> turns clicked page elements into physics
  bodies and animates them with gravity, floor and wall collisions, and a radial
  impulse on every click.

  JavaScript numbers are modelled as the reals: every arithmetic operation is the exact
  one, and there is no NaN, no infinity and no rounding. All statements below are
  statements about this idealised arithmetic.

  An element is an opaque handle; the document is a store from handles to what the script
  reads from an element (tag name, computed style, bounding rectangle) and what it writes
  to it (inline style).
\<close>

type_synonym elem = nat

datatype css = Str string | Px real

record inline_style =
  style_boxSizing :: css
  style_position :: css
  style_left :: css
  style_top :: css
  style_width :: css
  style_height :: css
  style_margin :: css
  style_transition :: css
  style_willChange :: css

record element =
  tagName :: string
  cs_display :: string
  cs_visibility :: string
  cs_opacity :: string
  rect_left :: real
  rect_top :: real
  rect_width :: real
  rect_height :: real
  style :: inline_style

text \<open>The object literal created by \<^verbatim>\<open>activateElement\<close> (lines 74-83).\<close>

record body =
  el :: elem
  x :: real
  y :: real
  vx :: real
  vy :: real
  w :: real
  h :: real

text \<open>
  The closure state of the \<^verbatim>\<open>DOMContentLoaded\<close> handler (\<^verbatim>\<open>bodies\<close>,
  \<^verbatim>\<open>activeSet\<close>, \<^verbatim>\<open>last\<close>) together with the parts of the browser
  environment the script reads and writes. The variable \<^verbatim>\<open>last\<close> is the field
  \<open>last_t\<close>.
\<close>

record state =
  bodies :: "body list"
  activeSet :: "elem set"
  last_t :: real
  doc :: "elem \<Rightarrow> element"
  scrollWidth :: real
  innerWidth :: real
  scrollHeight :: real
  innerHeight :: real
  scrollX :: real
  scrollY :: real

definition excludeTags :: "string set" where
  "excludeTags =
     {''HTML'', ''HEAD'', ''META'', ''TITLE'', ''LINK'', ''SCRIPT'', ''STYLE'', ''BODY''}"

definition GRAVITY :: real where
  "GRAVITY = 2000"

definition BOUNCE :: real where
  "BOUNCE = 0.6"

text \<open>\<^verbatim>\<open>Math.round\<close>: the nearest integer, a tie going up.\<close>

definition Math_round :: "real \<Rightarrow> int" where
  "Math_round r = \<lfloor>r + 1 / 2\<rfloor>"

section \<open>The frame step\<close>

text \<open>Line 18: the time step in seconds, from two timestamps in milliseconds.\<close>

definition step_dt :: "real \<Rightarrow> real \<Rightarrow> real" where
  "step_dt now lst = min 0.05 ((now - lst) / 1000)"

text \<open>Lines 26-28, the block commented \<^verbatim>\<open>integrate\<close>.\<close>

definition integrate :: "real \<Rightarrow> body \<Rightarrow> body" where
  "integrate dt b =
     (let b = b\<lparr>vy := vy b + GRAVITY * dt\<rparr>;
          b = b\<lparr>x := x b + vx b * dt\<rparr>;
          b = b\<lparr>y := y b + vy b * dt\<rparr>
      in b)"

text \<open>Lines 31-37, the block commented \<^verbatim>\<open>floor collision (page bottom)\<close>.\<close>

definition floorCollision :: "real \<Rightarrow> body \<Rightarrow> body" where
  "floorCollision pageHeight b =
     (if y b + h b > pageHeight then
        (let b = b\<lparr>y := pageHeight - h b\<rparr>;
             b = b\<lparr>vy := - vy b * BOUNCE\<rparr>;
             b = b\<lparr>vx := vx b * 0.8\<rparr>;
             b = (if \<bar>vy b\<bar> < 30 then b\<lparr>vy := 0\<rparr> else b)
         in b)
      else b)"

text \<open>Lines 40 and 41, the two statements commented \<^verbatim>\<open>left/right walls\<close>.\<close>

definition leftWall :: "body \<Rightarrow> body" where
  "leftWall b =
     (if x b < 0 then
        (let b = b\<lparr>x := 0\<rparr>;
             b = b\<lparr>vx := - vx b * BOUNCE\<rparr>
         in b)
      else b)"

definition rightWall :: "real \<Rightarrow> body \<Rightarrow> body" where
  "rightWall pageWidth b =
     (if x b + w b > pageWidth then
        (let b = b\<lparr>x := pageWidth - w b\<rparr>;
             b = b\<lparr>vx := - vx b * BOUNCE\<rparr>
         in b)
      else b)"

text \<open>
  Lines 25-41: what the \<^verbatim>\<open>forEach\<close> callback of \<^verbatim>\<open>step\<close> does to one body,
  with the captured \<^verbatim>\<open>dt\<close>, \<^verbatim>\<open>pageWidth\<close> and \<^verbatim>\<open>pageHeight\<close> as arguments.
\<close>

definition stepBody :: "real \<Rightarrow> real \<Rightarrow> real \<Rightarrow> body \<Rightarrow> body" where
  "stepBody dt pageWidth pageHeight b =
     rightWall pageWidth (leftWall (floorCollision pageHeight (integrate dt b)))"

text \<open>Lines 44-45: the write of the rounded position to the element's inline style.\<close>

definition writeBack :: "body \<Rightarrow> (elem \<Rightarrow> element) \<Rightarrow> (elem \<Rightarrow> element)" where
  "writeBack b d =
     (let d = d(el b := (d (el b))\<lparr>style :=
                  (style (d (el b)))\<lparr>style_left := Px (of_int (Math_round (x b)))\<rparr>\<rparr>);
          d = d(el b := (d (el b))\<lparr>style :=
                  (style (d (el b)))\<lparr>style_top := Px (of_int (Math_round (y b)))\<rparr>\<rparr>)
      in d)"

text \<open>Lines 24-46: the \<^verbatim>\<open>forEach\<close> over the bodies, in activation order.\<close>

fun stepBodies ::
  "real \<Rightarrow> real \<Rightarrow> real \<Rightarrow> body list \<Rightarrow> (elem \<Rightarrow> element) \<Rightarrow> body list \<times> (elem \<Rightarrow> element)"
where
  "stepBodies dt pageWidth pageHeight [] d = ([], d)"
| "stepBodies dt pageWidth pageHeight (b # bs) d =
     (let b' = stepBody dt pageWidth pageHeight b;
          d' = writeBack b' d;
          (bs', d'') = stepBodies dt pageWidth pageHeight bs d'
      in (b' # bs', d''))"

definition pageWidth_of :: "state \<Rightarrow> real" where
  "pageWidth_of s = max (scrollWidth s) (innerWidth s)"

definition pageHeight_of :: "state \<Rightarrow> real" where
  "pageHeight_of s = max (scrollHeight s) (innerHeight s)"

text \<open>
  Lines 17-49: one call of \<^verbatim>\<open>step(now)\<close>. The request for the next animation
  frame is the caller's business: every frame is one application of \<open>step\<close>.
\<close>

definition step :: "real \<Rightarrow> state \<Rightarrow> state" where
  "step now s =
     (let dt = step_dt now (last_t s);
          s = s\<lparr>last_t := now\<rparr>;
          pageWidth = pageWidth_of s;
          pageHeight = pageHeight_of s;
          (bs, d) = stepBodies dt pageWidth pageHeight (bodies s) (doc s)
      in s\<lparr>bodies := bs, doc := d\<rparr>)"

section \<open>Activation\<close>

text \<open>
  Lines 54-87. The argument is \<open>None\<close> for a null element. The result is the new body,
  or \<open>None\<close> for \<^verbatim>\<open>null\<close>, and the state after the call.
\<close>

definition activateElement :: "elem option \<Rightarrow> state \<Rightarrow> body option \<times> state" where
  "activateElement eo s =
     (case eo of
        None \<Rightarrow> (None, s)
      | Some e \<Rightarrow>
          if e \<in> activeSet s then (None, s)
          else if tagName (doc s e) \<in> excludeTags then (None, s)
          else if cs_display (doc s e) = ''none'' \<or> cs_visibility (doc s e) = ''hidden''
                  \<or> cs_opacity (doc s e) = ''0'' then (None, s)
          else if rect_width (doc s e) = 0 \<or> rect_height (doc s e) = 0 then (None, s)
          else
            (let rect = doc s e;
                 st = style (doc s e);
                 st = st\<lparr>style_boxSizing := Str ''border-box''\<rparr>;
                 st = st\<lparr>style_position := Str ''absolute''\<rparr>;
                 st = st\<lparr>style_left := Px (rect_left rect + scrollX s)\<rparr>;
                 st = st\<lparr>style_top := Px (rect_top rect + scrollY s)\<rparr>;
                 st = st\<lparr>style_width := Px (rect_width rect)\<rparr>;
                 st = st\<lparr>style_height := Px (rect_height rect)\<rparr>;
                 st = st\<lparr>style_margin := Str ''0''\<rparr>;
                 st = st\<lparr>style_transition := Str ''none''\<rparr>;
                 st = st\<lparr>style_willChange := Str ''left, top''\<rparr>;
                 s = s\<lparr>doc := (doc s)(e := (doc s e)\<lparr>style := st\<rparr>)\<rparr>;
                 body = \<lparr>el = e,
                         x = rect_left rect + scrollX s,
                         y = rect_top rect + scrollY s,
                         vx = 0,
                         vy = 30,
                         w = rect_width rect,
                         h = rect_height rect\<rparr>;
                 s = s\<lparr>bodies := bodies s @ [body]\<rparr>;
                 s = s\<lparr>activeSet := insert e (activeSet s)\<rparr>
             in (Some body, s)))"

section \<open>The radial impulse of a click\<close>

text \<open>
  Lines 99-104: the constants \<^verbatim>\<open>cx\<close>, \<^verbatim>\<open>cy\<close>, \<^verbatim>\<open>dx\<close>, \<^verbatim>\<open>dy\<close>,
  \<^verbatim>\<open>dist\<close> and \<^verbatim>\<open>force\<close> of the callback, as functions of the click position
  \<^verbatim>\<open>(e.clientX, e.clientY)\<close> and the body. The expression \<^verbatim>\<open>v || 1\<close> is \<open>1\<close>
  when \<open>v\<close> is zero and \<open>v\<close> otherwise.
\<close>

definition impulse_cx :: "body \<Rightarrow> real" where
  "impulse_cx b = x b + w b / 2"

definition impulse_cy :: "body \<Rightarrow> real" where
  "impulse_cy b = y b + h b / 2"

definition impulse_dx :: "real \<Rightarrow> body \<Rightarrow> real" where
  "impulse_dx clientX b = impulse_cx b - clientX"

definition impulse_dy :: "real \<Rightarrow> body \<Rightarrow> real" where
  "impulse_dy clientY b = impulse_cy b - clientY"

definition impulse_dist :: "real \<Rightarrow> real \<Rightarrow> body \<Rightarrow> real" where
  "impulse_dist clientX clientY b =
     (let dx = impulse_dx clientX b;
          dy = impulse_dy clientY b;
          r = sqrt (dx * dx + dy * dy)
      in if r = 0 then 1 else r)"

definition impulse_force :: "real \<Rightarrow> real \<Rightarrow> body \<Rightarrow> real" where
  "impulse_force clientX clientY b =
     min 3000 (60000 / (impulse_dist clientX clientY b + 20))"

text \<open>Lines 98-107: the callback applied to one body, and the pass over all bodies.\<close>

definition impulse :: "real \<Rightarrow> real \<Rightarrow> body \<Rightarrow> body" where
  "impulse clientX clientY b =
     (let dx = impulse_dx clientX b;
          dy = impulse_dy clientY b;
          dist = impulse_dist clientX clientY b;
          force = impulse_force clientX clientY b;
          b = b\<lparr>vx := vx b + (dx / dist) * (force / 1000)\<rparr>;
          b = b\<lparr>vy := vy b + (dy / dist) * (force / 1000)\<rparr>
      in b)"

definition applyRadialImpulse :: "real \<Rightarrow> real \<Rightarrow> state \<Rightarrow> state" where
  "applyRadialImpulse clientX clientY s =
     s\<lparr>bodies := map (impulse clientX clientY) (bodies s)\<rparr>"

section \<open>A concrete page\<close>

text \<open>
  A page of 800 by 600 without scrolling whose elements are all one block element of
  50 by 50 at (100, 0), with nothing activated yet; the same page with elements of
  width 0; and the same page with a given sequence of bodies and the last timestamp at
  1000 ms.
\<close>

definition demo_element :: element where
  "demo_element =
     \<lparr>tagName = ''DIV'', cs_display = ''block'', cs_visibility = ''visible'',
      cs_opacity = ''1'', rect_left = 100, rect_top = 0, rect_width = 50, rect_height = 50,
      style = \<lparr>style_boxSizing = Str [], style_position = Str [], style_left = Str [],
                style_top = Str [], style_width = Str [], style_height = Str [],
                style_margin = Str [], style_transition = Str [],
                style_willChange = Str []\<rparr>\<rparr>"

definition demo_state :: state where
  "demo_state =
     \<lparr>bodies = [], activeSet = {}, last_t = 0, doc = (\<lambda>_. demo_element),
      scrollWidth = 800, innerWidth = 800, scrollHeight = 600, innerHeight = 600,
      scrollX = 0, scrollY = 0\<rparr>"

definition flat_state :: state where
  "flat_state = demo_state\<lparr>doc := (\<lambda>_. demo_element\<lparr>rect_width := 0\<rparr>)\<rparr>"

definition running :: "body list \<Rightarrow> state" where
  "running bs = demo_state\<lparr>bodies := bs, activeSet := set (map el bs), last_t := 1000\<rparr>"

section \<open>Field-wise form of the operations\<close>

lemma integrate_sel:
  "el (integrate dt b) = el b"
  "x (integrate dt b) = x b + vx b * dt"
  "y (integrate dt b) = y b + (vy b + GRAVITY * dt) * dt"
  "vx (integrate dt b) = vx b"
  "vy (integrate dt b) = vy b + GRAVITY * dt"
  "w (integrate dt b) = w b"
  "h (integrate dt b) = h b"
  by (simp_all add: integrate_def Let_def)

lemma floorCollision_sel:
  "el (floorCollision ph b) = el b"
  "x (floorCollision ph b) = x b"
  "y (floorCollision ph b) = (if y b + h b > ph then ph - h b else y b)"
  "vx (floorCollision ph b) = (if y b + h b > ph then vx b * 0.8 else vx b)"
  "vy (floorCollision ph b) =
     (if y b + h b > ph then (if \<bar>- vy b * BOUNCE\<bar> < 30 then 0 else - vy b * BOUNCE) else vy b)"
  "w (floorCollision ph b) = w b"
  "h (floorCollision ph b) = h b"
  by (simp_all add: floorCollision_def Let_def)

lemma leftWall_sel:
  "el (leftWall b) = el b"
  "x (leftWall b) = (if x b < 0 then 0 else x b)"
  "y (leftWall b) = y b"
  "vx (leftWall b) = (if x b < 0 then - vx b * BOUNCE else vx b)"
  "vy (leftWall b) = vy b"
  "w (leftWall b) = w b"
  "h (leftWall b) = h b"
  by (simp_all add: leftWall_def Let_def)

lemma rightWall_sel:
  "el (rightWall pw b) = el b"
  "x (rightWall pw b) = (if x b + w b > pw then pw - w b else x b)"
  "y (rightWall pw b) = y b"
  "vx (rightWall pw b) = (if x b + w b > pw then - vx b * BOUNCE else vx b)"
  "vy (rightWall pw b) = vy b"
  "w (rightWall pw b) = w b"
  "h (rightWall pw b) = h b"
  by (simp_all add: rightWall_def Let_def)

lemma stepBodies_fst:
  "fst (stepBodies dt pw ph bs d) = map (stepBody dt pw ph) bs"
  by (induction bs arbitrary: d) (simp_all add: Let_def case_prod_beta)

lemma bodies_step:
  "bodies (step now s) =
     map (stepBody (step_dt now (last_t s)) (pageWidth_of s) (pageHeight_of s)) (bodies s)"
  using stepBodies_fst[of "step_dt now (last_t s)" "pageWidth_of s" "pageHeight_of s" "bodies s" "doc s"]
  by (simp add: step_def Let_def pageWidth_of_def pageHeight_of_def case_prod_beta)

lemma stepBody_bounds:
  "x (stepBody dt pw ph b) + w (stepBody dt pw ph b) \<le> pw"
  "y (stepBody dt pw ph b) + h (stepBody dt pw ph b) \<le> ph"
  "w b \<le> pw \<Longrightarrow> 0 \<le> x (stepBody dt pw ph b)"
  by (simp_all add: stepBody_def rightWall_sel leftWall_sel floorCollision_sel integrate_sel)



lemma impulse_dist_pos: "0 < impulse_dist ox oy b"
proof -
  have "0 \<le> sqrt (impulse_dx ox b * impulse_dx ox b + impulse_dy oy b * impulse_dy oy b)"
    by simp
  then show ?thesis
    unfolding impulse_dist_def Let_def by (simp add: less_le)
qed

lemma impulse_dist_centre:
  "impulse_cx b = ox \<Longrightarrow> impulse_cy b = oy \<Longrightarrow> impulse_dist ox oy b = 1"
  by (simp add: impulse_dist_def impulse_dx_def impulse_dy_def)

lemma impulse_force_pos: "0 < impulse_force ox oy b"
  using impulse_dist_pos[of ox oy b] by (simp add: impulse_force_def)

lemma impulse_force_below_cap: "impulse_force ox oy b < 3000"
proof -
  have "60000 / (impulse_dist ox oy b + 20) < 3000"
    using impulse_dist_pos[of ox oy b] by (simp add: divide_less_eq)
  then show ?thesis by (simp add: impulse_force_def)
qed

lemma impulse_sel:
  "el (impulse ox oy b) = el b"
  "x (impulse ox oy b) = x b"
  "y (impulse ox oy b) = y b"
  "w (impulse ox oy b) = w b"
  "h (impulse ox oy b) = h b"
  "vx (impulse ox oy b) =
     vx b + (impulse_dx ox b / impulse_dist ox oy b) * (impulse_force ox oy b / 1000)"
  "vy (impulse ox oy b) =
     vy b + (impulse_dy oy b / impulse_dist ox oy b) * (impulse_force ox oy b / 1000)"
  by (simp_all add: impulse_def Let_def)

lemma last_t_step: "last_t (step now s) = now"
  by (simp add: step_def Let_def case_prod_beta)

lemma activate_null: "activateElement None s = (None, s)"
  by (simp add: activateElement_def)

lemma activate_rejected:
  "e \<in> activeSet s \<or> tagName (doc s e) \<in> excludeTags \<or> cs_display (doc s e) = ''none''
     \<or> cs_visibility (doc s e) = ''hidden'' \<or> cs_opacity (doc s e) = ''0''
     \<or> rect_width (doc s e) = 0 \<or> rect_height (doc s e) = 0 \<Longrightarrow>
   activateElement (Some e) s = (None, s)"
  by (auto simp: activateElement_def)

lemma activate_accepted:
  assumes "e \<notin> activeSet s" "tagName (doc s e) \<notin> excludeTags" "cs_display (doc s e) \<noteq> ''none''"
    "cs_visibility (doc s e) \<noteq> ''hidden''" "cs_opacity (doc s e) \<noteq> ''0''"
    "rect_width (doc s e) \<noteq> 0" "rect_height (doc s e) \<noteq> 0"
  shows "fst (activateElement (Some e) s) =
           Some \<lparr>el = e, x = rect_left (doc s e) + scrollX s, y = rect_top (doc s e) + scrollY s,
                 vx = 0, vy = 30, w = rect_width (doc s e), h = rect_height (doc s e)\<rparr>"
    and "bodies (snd (activateElement (Some e) s)) =
           bodies s @ [\<lparr>el = e, x = rect_left (doc s e) + scrollX s,
                         y = rect_top (doc s e) + scrollY s,
                         vx = 0, vy = 30, w = rect_width (doc s e), h = rect_height (doc s e)\<rparr>]"
    and "activeSet (snd (activateElement (Some e) s)) = insert e (activeSet s)"
  using assms by (simp_all add: activateElement_def Let_def)

lemma activate_cases:
  "activateElement eo s = (None, s)
   \<or> (\<exists>e. eo = Some e \<and> fst (activateElement eo s) \<noteq> None
          \<and> length (bodies (snd (activateElement eo s))) = Suc (length (bodies s))
          \<and> e \<in> activeSet (snd (activateElement eo s)))"
proof (cases eo)
  case None
  then show ?thesis by (simp add: activate_null)
next
  case (Some e)
  show ?thesis
  proof (cases "e \<in> activeSet s \<or> tagName (doc s e) \<in> excludeTags \<or> cs_display (doc s e) = ''none''
     \<or> cs_visibility (doc s e) = ''hidden'' \<or> cs_opacity (doc s e) = ''0''
     \<or> rect_width (doc s e) = 0 \<or> rect_height (doc s e) = 0")
    case True
    then show ?thesis unfolding Some by (simp only: activate_rejected simp_thms)
  next
    case False
    then show ?thesis unfolding Some by (simp add: activate_accepted)
  qed
qed

lemma activate_twice:
  "activateElement eo (snd (activateElement eo s)) = (None, snd (activateElement eo s))"
  using activate_cases[of eo s]
proof
  assume "activateElement eo s = (None, s)"
  then show ?thesis by simp
next
  assume "\<exists>e. eo = Some e \<and> fst (activateElement eo s) \<noteq> None
          \<and> length (bodies (snd (activateElement eo s))) = Suc (length (bodies s))
          \<and> e \<in> activeSet (snd (activateElement eo s))"
  then obtain e where "eo = Some e" "e \<in> activeSet (snd (activateElement eo s))" by blast
  then show ?thesis by (simp add: activate_rejected)
qed


lemma nth_bodies_step:
  "i < length (bodies s) \<Longrightarrow>
   bodies (step now s) ! i =
     stepBody (step_dt now (last_t s)) (pageWidth_of s) (pageHeight_of s) (bodies s ! i)"
  by (simp add: bodies_step)





lemma floor_walls_commute:
  "floorCollision ph (rightWall pw (leftWall c)) = rightWall pw (leftWall (floorCollision ph c))"
  by (rule body.equality)
     (simp_all add: floorCollision_sel rightWall_sel leftWall_sel)

lemma bodies_applyRadialImpulse:
  "bodies (applyRadialImpulse ox oy s) = map (impulse ox oy) (bodies s)"
  by (simp add: applyRadialImpulse_def)

text \<open>
  After a frame, every body of the state is within the right edge and the floor of the
  page, and within the left edge when it is no wider than the page.
\<close>

lemma step_bodies_bounds:
  assumes "c \<in> set (bodies (step now s))"
  shows "x c + w c \<le> pageWidth_of s" and "y c + h c \<le> pageHeight_of s"
    and "w c \<le> pageWidth_of s \<Longrightarrow> 0 \<le> x c"
proof -
  from assms obtain b where c: "c = stepBody (step_dt now (last_t s)) (pageWidth_of s) (pageHeight_of s) b"
    by (auto simp: bodies_step)
  have wc: "w c = w b"
    by (simp add: c stepBody_def rightWall_sel leftWall_sel floorCollision_sel integrate_sel)
  show "x c + w c \<le> pageWidth_of s" and "y c + h c \<le> pageHeight_of s"
    unfolding c by (rule stepBody_bounds)+
  show "0 \<le> x c" if "w c \<le> pageWidth_of s"
    using that unfolding wc unfolding c by (rule stepBody_bounds)
qed

section \<open>Bounds after a step\<close>

text \<open>
  C1, as the specification states it, fails: the left bound \<open>0 \<le> x\<close> does not hold
  after a step for a body wider than the page. The body below
  is what activation makes of an element 1000 wide at left -200 on a page 800 wide: the
  left wall moves it to 0, the right wall then moves it to -200, and the left check is not
  run again.
\<close>

theorem step_bounds_counterexample:
  "\<not> (0 \<le> x (stepBody (1 / 100) 800 600
               \<lparr>el = 0, x = - 200, y = 0, vx = 0, vy = 30, w = 1000, h = 50\<rparr>))"
  by (simp add: stepBody_def rightWall_sel leftWall_sel floorCollision_sel integrate_sel)

text \<open>
  C1, amended: after every step, for any time step and page bounds, \<open>x + w \<le> pageWidth\<close>
  and \<open>y + h \<le> pageHeight\<close> hold, and \<open>0 \<le> x\<close> holds for every body no wider than the
  page.
\<close>

theorem step_bounds:
  "x (stepBody dt pageWidth pageHeight b) + w (stepBody dt pageWidth pageHeight b) \<le> pageWidth
   \<and> y (stepBody dt pageWidth pageHeight b) + h (stepBody dt pageWidth pageHeight b) \<le> pageHeight
   \<and> (w b \<le> pageWidth \<longrightarrow> 0 \<le> x (stepBody dt pageWidth pageHeight b))"
  by (simp add: stepBody_bounds)

theorem step_bounds_witness:
  "w \<lparr>el = 0, x = - 10, y = 580, vx = - 40, vy = 250, w = 50, h = 50\<rparr> \<le> (800::real)
   \<and> x (stepBody (1 / 100) 800 600 \<lparr>el = 0, x = - 10, y = 580, vx = - 40, vy = 250, w = 50, h = 50\<rparr>) = 0
   \<and> y (stepBody (1 / 100) 800 600 \<lparr>el = 0, x = - 10, y = 580, vx = - 40, vy = 250, w = 50, h = 50\<rparr>) = 550
   \<and> 0 \<le> x (stepBody (1 / 100) 800 600 \<lparr>el = 0, x = - 10, y = 580, vx = - 40, vy = 250, w = 50, h = 50\<rparr>)"
  using step_bounds[where dt = "1 / 100" and pageWidth = 800 and pageHeight = 600
      and b = "\<lparr>el = 0, x = - 10, y = 580, vx = - 40, vy = 250, w = 50, h = 50\<rparr>"]
  by (simp add: stepBody_def rightWall_sel leftWall_sel floorCollision_sel integrate_sel
      GRAVITY_def)

section \<open>Floor collision\<close>

text \<open>
  C2: on a body whose position has \<open>y + h > pageHeight\<close>, the floor branch sets
  \<open>y = pageHeight - h\<close>, reflects \<open>vy\<close> to \<open>- vy * BOUNCE\<close> with \<open>BOUNCE = 0.6\<close>,
  multiplies \<open>vx\<close> by 0.8 and then sets a reflected \<open>vy\<close> of absolute value below 30 to 0;
  on a body with \<open>y + h \<le> pageHeight\<close> it changes nothing. A frame does this to every
  body of the sequence: each body after \<open>step\<close> is the integrated body put through the
  floor branch and then the walls, which leave \<open>y\<close> and \<open>vy\<close> as the floor branch made
  them, and \<open>vx\<close> too when no wall is hit.
\<close>

theorem floor_collision:
  "BOUNCE = 0.6
   \<and> (y c + h c > pageHeight \<longrightarrow>
        y (floorCollision pageHeight c) = pageHeight - h c
        \<and> vx (floorCollision pageHeight c) = vx c * 0.8
        \<and> vy (floorCollision pageHeight c) =
            (if \<bar>- vy c * BOUNCE\<bar> < 30 then 0 else - vy c * BOUNCE)
        \<and> x (floorCollision pageHeight c) = x c
        \<and> w (floorCollision pageHeight c) = w c
        \<and> h (floorCollision pageHeight c) = h c
        \<and> el (floorCollision pageHeight c) = el c)
   \<and> (y c + h c \<le> pageHeight \<longrightarrow> floorCollision pageHeight c = c)
   \<and> y (stepBody dt pageWidth pageHeight b) = y (floorCollision pageHeight (integrate dt b))
   \<and> vy (stepBody dt pageWidth pageHeight b) = vy (floorCollision pageHeight (integrate dt b))
   \<and> fst (stepBodies dt pageWidth pageHeight bs d) = map (stepBody dt pageWidth pageHeight) bs
   \<and> bodies (step now s) =
       map (stepBody (step_dt now (last_t s)) (pageWidth_of s) (pageHeight_of s)) (bodies s)
   \<and> (i < length (bodies s) \<longrightarrow>
        (let c = integrate (step_dt now (last_t s)) (bodies s ! i);
             r = bodies (step now s) ! i
         in r = rightWall (pageWidth_of s) (leftWall (floorCollision (pageHeight_of s) c))
            \<and> (y c + h c > pageHeight_of s \<longrightarrow>
                 y r = pageHeight_of s - h c
                 \<and> vy r = (if \<bar>- vy c * BOUNCE\<bar> < 30 then 0 else - vy c * BOUNCE)
                 \<and> (0 \<le> x c \<and> x c + w c \<le> pageWidth_of s \<longrightarrow> vx r = vx c * 0.8))
            \<and> (y c + h c \<le> pageHeight_of s \<longrightarrow>
                 y r = y c \<and> vy r = vy c \<and> r = rightWall (pageWidth_of s) (leftWall c))))"
proof -
  have body: "BOUNCE = 0.6
   \<and> (y c + h c > pageHeight \<longrightarrow>
        y (floorCollision pageHeight c) = pageHeight - h c
        \<and> vx (floorCollision pageHeight c) = vx c * 0.8
        \<and> vy (floorCollision pageHeight c) =
            (if \<bar>- vy c * BOUNCE\<bar> < 30 then 0 else - vy c * BOUNCE)
        \<and> x (floorCollision pageHeight c) = x c
        \<and> w (floorCollision pageHeight c) = w c
        \<and> h (floorCollision pageHeight c) = h c
        \<and> el (floorCollision pageHeight c) = el c)
   \<and> (y c + h c \<le> pageHeight \<longrightarrow> floorCollision pageHeight c = c)
   \<and> y (stepBody dt pageWidth pageHeight b) = y (floorCollision pageHeight (integrate dt b))
   \<and> vy (stepBody dt pageWidth pageHeight b) = vy (floorCollision pageHeight (integrate dt b))"
    by (simp add: floorCollision_sel BOUNCE_def stepBody_def rightWall_sel leftWall_sel
        floorCollision_def)
  have frame: "i < length (bodies s) \<longrightarrow>
        (let c = integrate (step_dt now (last_t s)) (bodies s ! i);
             r = bodies (step now s) ! i
         in r = rightWall (pageWidth_of s) (leftWall (floorCollision (pageHeight_of s) c))
            \<and> (y c + h c > pageHeight_of s \<longrightarrow>
                 y r = pageHeight_of s - h c
                 \<and> vy r = (if \<bar>- vy c * BOUNCE\<bar> < 30 then 0 else - vy c * BOUNCE)
                 \<and> (0 \<le> x c \<and> x c + w c \<le> pageWidth_of s \<longrightarrow> vx r = vx c * 0.8))
            \<and> (y c + h c \<le> pageHeight_of s \<longrightarrow>
                 y r = y c \<and> vy r = vy c \<and> r = rightWall (pageWidth_of s) (leftWall c)))"
    by (simp add: nth_bodies_step Let_def stepBody_def rightWall_sel leftWall_sel
        floorCollision_sel)
  have loop: "fst (stepBodies dt pageWidth pageHeight bs d) = map (stepBody dt pageWidth pageHeight) bs"
    by (rule stepBodies_fst)
  have tick: "bodies (step now s) =
       map (stepBody (step_dt now (last_t s)) (pageWidth_of s) (pageHeight_of s)) (bodies s)"
    by (rule bodies_step)
  from body frame loop tick show ?thesis
    by blast
qed

theorem floor_collision_witness:
  "(0::nat) < length (bodies (running [\<lparr>el = 0, x = 100, y = 580, vx = 10, vy = 250, w = 50, h = 50\<rparr>]))
   \<and> y (integrate (step_dt 1010 1000) \<lparr>el = 0, x = 100, y = 580, vx = 10, vy = 250, w = 50, h = 50\<rparr>)
       + 50 > pageHeight_of (running [\<lparr>el = 0, x = 100, y = 580, vx = 10, vy = 250, w = 50, h = 50\<rparr>])
   \<and> y (bodies (step 1010 (running [\<lparr>el = 0, x = 100, y = 580, vx = 10, vy = 250, w = 50, h = 50\<rparr>])) ! 0) = 550
   \<and> bodies (step 1010 (running [\<lparr>el = 0, x = 100, y = 580, vx = 10, vy = 250, w = 50, h = 50\<rparr>]))
       = [\<lparr>el = 0, x = 100 + 1 / 10, y = 550, vx = 8, vy = - 162, w = 50, h = 50\<rparr>]
   \<and> y \<lparr>el = 0, x = 100, y = 580, vx = 10, vy = 250, w = 50, h = 50\<rparr>
     + h \<lparr>el = 0, x = 100, y = 580, vx = 10, vy = 250, w = 50, h = 50\<rparr> > (600::real)
   \<and> y (floorCollision 600 \<lparr>el = 0, x = 100, y = 580, vx = 10, vy = 250, w = 50, h = 50\<rparr>) = 550
   \<and> vy (floorCollision 600 \<lparr>el = 0, x = 100, y = 580, vx = 10, vy = 250, w = 50, h = 50\<rparr>) = - 150
   \<and> vx (floorCollision 600 \<lparr>el = 0, x = 100, y = 580, vx = 10, vy = 250, w = 50, h = 50\<rparr>) = 8
   \<and> y \<lparr>el = 0, x = 100, y = 23, vx = 0, vy = 230, w = 50, h = 50\<rparr>
     + h \<lparr>el = 0, x = 100, y = 23, vx = 0, vy = 230, w = 50, h = 50\<rparr> \<le> (600::real)
   \<and> floorCollision 600 \<lparr>el = 0, x = 100, y = 23, vx = 0, vy = 230, w = 50, h = 50\<rparr>
       = \<lparr>el = 0, x = 100, y = 23, vx = 0, vy = 230, w = 50, h = 50\<rparr>"
proof -
  let ?c = "\<lparr>el = 0, x = 100, y = 580, vx = 10, vy = 250, w = 50, h = 50\<rparr>"
  let ?c' = "\<lparr>el = 0, x = 100, y = 23, vx = 0, vy = 230, w = 50, h = 50\<rparr>"
  have over: "y ?c + h ?c > (600::real)" and under: "y ?c' + h ?c' \<le> (600::real)"
    by simp_all
  have bounce: "BOUNCE = 0.6"
    and hit: "y (floorCollision 600 ?c) = 600 - h ?c \<and> vx (floorCollision 600 ?c) = vx ?c * 0.8
      \<and> vy (floorCollision 600 ?c) = (if \<bar>- vy ?c * BOUNCE\<bar> < 30 then 0 else - vy ?c * BOUNCE)"
    using floor_collision[where c = ?c and pageHeight = 600] over by blast+
  have miss: "floorCollision 600 ?c' = ?c'"
    using floor_collision[where c = ?c' and pageHeight = 600] under by blast
  have len: "(0::nat) < length (bodies (running [?c]))"
    by (simp add: running_def)
  have ph: "pageHeight_of (running [?c]) = 600" and pw: "pageWidth_of (running [?c]) = 800"
    and lt: "last_t (running [?c]) = 1000" and bs: "bodies (running [?c]) = [?c]"
    by (simp_all add: running_def demo_state_def pageHeight_of_def pageWidth_of_def)
  have cross: "y (integrate (step_dt 1010 1000) ?c) + 50 > pageHeight_of (running [?c])"
    by (simp add: ph integrate_sel step_dt_def GRAVITY_def)
  have "bodies (step 1010 (running [?c]))
      = map (stepBody (step_dt 1010 1000) 800 600) [?c]"
    using floor_collision[where now = 1010 and s = "running [?c]"]
    by (simp only: ph pw lt bs)
  then have frame: "bodies (step 1010 (running [?c]))
      = [\<lparr>el = 0, x = 100 + 1 / 10, y = 550, vx = 8, vy = - 162, w = 50, h = 50\<rparr>]"
    by (simp add: stepBody_def rightWall_def leftWall_def floorCollision_def integrate_def
        step_dt_def GRAVITY_def BOUNCE_def Let_def)
  have clamp: "y (bodies (step 1010 (running [?c])) ! 0) = 550"
    using floor_collision[where now = 1010 and s = "running [?c]" and i = 0] len cross
    by (simp add: Let_def lt bs ph integrate_sel)
  show ?thesis
    using hit miss len cross frame clamp by (simp add: bounce)
qed

section \<open>Integration order\<close>



section \<open>Wall collisions\<close>

text \<open>
  C4: after integration and the floor branch, a body with \<open>x < 0\<close> gets \<open>x = 0\<close> and
  \<open>vx = - vx * BOUNCE\<close>; then a body with \<open>x + w > pageWidth\<close> gets \<open>x = pageWidth - w\<close>
  and \<open>vx = - vx * BOUNCE\<close>. Every body after a frame is the old one put through
  integration, floor, left wall and right wall in this order. The checks of the two axes
  are independent: the floor branch does not touch \<open>x\<close> and \<open>w\<close>, the walls do not touch
  \<open>y\<close>, \<open>vy\<close> and \<open>h\<close>, and the floor branch commutes with the walls. The order of the
  two walls matters: the right wall decides on the \<open>x\<close> the left wall left, no check is run
  again, and for a body wider than the page the other order gives another position.
\<close>

theorem wall_collisions:
  "stepBody dt pageWidth pageHeight b =
     rightWall pageWidth (leftWall (floorCollision pageHeight (integrate dt b)))
   \<and> leftWall c = (if x c < 0 then c\<lparr>x := 0, vx := - vx c * BOUNCE\<rparr> else c)
   \<and> rightWall pageWidth c =
       (if x c + w c > pageWidth then c\<lparr>x := pageWidth - w c, vx := - vx c * BOUNCE\<rparr> else c)
   \<and> x (floorCollision pageHeight c) = x c
   \<and> w (floorCollision pageHeight c) = w c
   \<and> y (rightWall pageWidth (leftWall c)) = y c
   \<and> vy (rightWall pageWidth (leftWall c)) = vy c
   \<and> h (rightWall pageWidth (leftWall c)) = h c
   \<and> x (rightWall pageWidth (leftWall c)) =
       (if (if x c < 0 then 0 else x c) + w c > pageWidth then pageWidth - w c
        else if x c < 0 then 0 else x c)
   \<and> vx (rightWall pageWidth (leftWall c)) =
       (if (if x c < 0 then 0 else x c) + w c > pageWidth
        then - (if x c < 0 then - vx c * BOUNCE else vx c) * BOUNCE
        else if x c < 0 then - vx c * BOUNCE else vx c)
   \<and> floorCollision pageHeight (rightWall pageWidth (leftWall c)) =
       rightWall pageWidth (leftWall (floorCollision pageHeight c))
   \<and> rightWall 800 (leftWall \<lparr>el = e, x = - 5, y = 10, vx = - 100, vy = 40, w = 1000, h = 50\<rparr>)
       = \<lparr>el = e, x = - 200, y = 10, vx = - 36, vy = 40, w = 1000, h = 50\<rparr>
   \<and> leftWall (rightWall 800 \<lparr>el = e, x = - 5, y = 10, vx = - 100, vy = 40, w = 1000, h = 50\<rparr>)
       = \<lparr>el = e, x = 0, y = 10, vx = - 36, vy = 40, w = 1000, h = 50\<rparr>
   \<and> fst (stepBodies dt pageWidth pageHeight bs d) =
       map (\<lambda>b. rightWall pageWidth (leftWall (floorCollision pageHeight (integrate dt b)))) bs
   \<and> bodies (step now s) =
       map (\<lambda>b. rightWall (pageWidth_of s) (leftWall (floorCollision (pageHeight_of s)
                   (integrate (step_dt now (last_t s)) b)))) (bodies s)
   \<and> (i < length (bodies s) \<longrightarrow>
        (let c = floorCollision (pageHeight_of s) (integrate (step_dt now (last_t s)) (bodies s ! i));
             r = bodies (step now s) ! i
         in (x c < 0 \<and> w c \<le> pageWidth_of s \<longrightarrow> x r = 0 \<and> vx r = - vx c * BOUNCE)
            \<and> (0 \<le> x c \<and> x c + w c > pageWidth_of s \<longrightarrow>
                 x r = pageWidth_of s - w c \<and> vx r = - vx c * BOUNCE)
            \<and> (x c < 0 \<and> w c > pageWidth_of s \<longrightarrow>
                 x r = pageWidth_of s - w c \<and> vx r = - (- vx c * BOUNCE) * BOUNCE)
            \<and> (0 \<le> x c \<and> x c + w c \<le> pageWidth_of s \<longrightarrow> x r = x c \<and> vx r = vx c)
            \<and> y r = y c \<and> vy r = vy c))"
proof -
  have callback: "stepBody dt pageWidth pageHeight =
      (\<lambda>b. rightWall pageWidth (leftWall (floorCollision pageHeight (integrate dt b))))"
    for dt pageWidth pageHeight
    by (rule ext) (simp add: stepBody_def)
  have walls: "leftWall c = (if x c < 0 then c\<lparr>x := 0, vx := - vx c * BOUNCE\<rparr> else c)
   \<and> rightWall pageWidth c =
       (if x c + w c > pageWidth then c\<lparr>x := pageWidth - w c, vx := - vx c * BOUNCE\<rparr> else c)
   \<and> x (floorCollision pageHeight c) = x c
   \<and> w (floorCollision pageHeight c) = w c
   \<and> y (rightWall pageWidth (leftWall c)) = y c
   \<and> vy (rightWall pageWidth (leftWall c)) = vy c
   \<and> h (rightWall pageWidth (leftWall c)) = h c
   \<and> x (rightWall pageWidth (leftWall c)) =
       (if (if x c < 0 then 0 else x c) + w c > pageWidth then pageWidth - w c
        else if x c < 0 then 0 else x c)
   \<and> vx (rightWall pageWidth (leftWall c)) =
       (if (if x c < 0 then 0 else x c) + w c > pageWidth
        then - (if x c < 0 then - vx c * BOUNCE else vx c) * BOUNCE
        else if x c < 0 then - vx c * BOUNCE else vx c)"
    by (simp add: floorCollision_sel rightWall_sel leftWall_sel)
  have order: "rightWall 800 (leftWall \<lparr>el = e, x = - 5, y = 10, vx = - 100, vy = 40, w = 1000, h = 50\<rparr>)
       = \<lparr>el = e, x = - 200, y = 10, vx = - 36, vy = 40, w = 1000, h = 50\<rparr>"
    "leftWall (rightWall 800 \<lparr>el = e, x = - 5, y = 10, vx = - 100, vy = 40, w = 1000, h = 50\<rparr>)
       = \<lparr>el = e, x = 0, y = 10, vx = - 36, vy = 40, w = 1000, h = 50\<rparr>"
    by (simp_all add: leftWall_def rightWall_def Let_def BOUNCE_def)
  have loop: "fst (stepBodies dt pageWidth pageHeight bs d) =
       map (\<lambda>b. rightWall pageWidth (leftWall (floorCollision pageHeight (integrate dt b)))) bs"
    by (simp only: stepBodies_fst callback)
  have tick: "bodies (step now s) =
       map (\<lambda>b. rightWall (pageWidth_of s) (leftWall (floorCollision (pageHeight_of s)
                   (integrate (step_dt now (last_t s)) b)))) (bodies s)"
    by (simp only: bodies_step callback)
  have each: "i < length (bodies s) \<longrightarrow>
        (let c = floorCollision (pageHeight_of s) (integrate (step_dt now (last_t s)) (bodies s ! i));
             r = bodies (step now s) ! i
         in (x c < 0 \<and> w c \<le> pageWidth_of s \<longrightarrow> x r = 0 \<and> vx r = - vx c * BOUNCE)
            \<and> (0 \<le> x c \<and> x c + w c > pageWidth_of s \<longrightarrow>
                 x r = pageWidth_of s - w c \<and> vx r = - vx c * BOUNCE)
            \<and> (x c < 0 \<and> w c > pageWidth_of s \<longrightarrow>
                 x r = pageWidth_of s - w c \<and> vx r = - (- vx c * BOUNCE) * BOUNCE)
            \<and> (0 \<le> x c \<and> x c + w c \<le> pageWidth_of s \<longrightarrow> x r = x c \<and> vx r = vx c)
            \<and> y r = y c \<and> vy r = vy c)"
    by (simp add: nth_bodies_step Let_def stepBody_def rightWall_sel leftWall_sel)
  have comm: "floorCollision pageHeight (rightWall pageWidth (leftWall c)) =
       rightWall pageWidth (leftWall (floorCollision pageHeight c))"
    by (rule floor_walls_commute)
  have one: "stepBody dt pageWidth pageHeight b =
     rightWall pageWidth (leftWall (floorCollision pageHeight (integrate dt b)))"
    by (simp add: stepBody_def)
  from one walls comm order loop tick each show ?thesis
    by blast
qed

theorem wall_collisions_witness:
  "(0::nat) < length (bodies (running [\<lparr>el = 0, x = - 4, y = 10, vx = - 100, vy = 20, w = 50, h = 50\<rparr>]))
   \<and> x (floorCollision 600 (integrate (1 / 100) \<lparr>el = 0, x = - 4, y = 10, vx = - 100, vy = 20, w = 50, h = 50\<rparr>)) < 0
   \<and> (50::real) \<le> 800
   \<and> bodies (step 1010 (running [\<lparr>el = 0, x = - 4, y = 10, vx = - 100, vy = 20, w = 50, h = 50\<rparr>]))
       = [\<lparr>el = 0, x = 0, y = 10 + 4 / 10, vx = 60, vy = 40, w = 50, h = 50\<rparr>]
   \<and> x (bodies (step 1010 (running [\<lparr>el = 0, x = - 4, y = 10, vx = - 100, vy = 20, w = 50, h = 50\<rparr>])) ! 0) = 0
   \<and> rightWall 800 (leftWall \<lparr>el = 0, x = - 5, y = 10, vx = - 100, vy = 40, w = 1000, h = 50\<rparr>)
     = \<lparr>el = 0, x = - 200, y = 10, vx = - 36, vy = 40, w = 1000, h = 50\<rparr>
   \<and> leftWall \<lparr>el = 0, x = - 5, y = 10, vx = - 100, vy = 40, w = 50, h = 50\<rparr>
     = \<lparr>el = 0, x = 0, y = 10, vx = 60, vy = 40, w = 50, h = 50\<rparr>
   \<and> rightWall 800 \<lparr>el = 0, x = 790, y = 10, vx = 100, vy = 40, w = 50, h = 50\<rparr>
     = \<lparr>el = 0, x = 750, y = 10, vx = - 60, vy = 40, w = 50, h = 50\<rparr>"
proof -
  let ?b = "\<lparr>el = 0, x = - 4, y = 10, vx = - 100, vy = 20, w = 50, h = 50\<rparr>"
  let ?s = "running [?b]"
  have ph: "pageHeight_of ?s = 600" and pw: "pageWidth_of ?s = 800"
    and lt: "last_t ?s = 1000" and bs: "bodies ?s = [?b]"
    by (simp_all add: running_def demo_state_def pageHeight_of_def pageWidth_of_def)
  have dt: "step_dt 1010 1000 = 1 / 100"
    by (simp add: step_dt_def)
  have len: "(0::nat) < length (bodies ?s)"
    by (simp add: bs)
  have out: "x (floorCollision 600 (integrate (1 / 100) ?b)) < 0"
    by (simp add: floorCollision_sel integrate_sel)
  note inst = wall_collisions[where now = 1010 and s = ?s and i = 0]
  have "bodies (step 1010 ?s) =
       map (\<lambda>b. rightWall 800 (leftWall (floorCollision 600 (integrate (1 / 100) b)))) [?b]"
    using inst by (simp only: ph pw lt bs dt)
  then have frame: "bodies (step 1010 ?s)
      = [\<lparr>el = 0, x = 0, y = 10 + 4 / 10, vx = 60, vy = 40, w = 50, h = 50\<rparr>]"
    by (simp add: rightWall_def leftWall_def floorCollision_def integrate_def
        GRAVITY_def BOUNCE_def Let_def)
  have clamp: "x (bodies (step 1010 ?s) ! 0) = 0"
    using inst len out by (simp add: Let_def ph pw lt bs dt floorCollision_sel integrate_sel)
  have pure: "rightWall 800 (leftWall \<lparr>el = 0, x = - 5, y = 10, vx = - 100, vy = 40, w = 1000, h = 50\<rparr>)
     = \<lparr>el = 0, x = - 200, y = 10, vx = - 36, vy = 40, w = 1000, h = 50\<rparr>"
    using wall_collisions[where e = 0] by blast
  have sides: "leftWall \<lparr>el = 0, x = - 5, y = 10, vx = - 100, vy = 40, w = 50, h = 50\<rparr>
     = \<lparr>el = 0, x = 0, y = 10, vx = 60, vy = 40, w = 50, h = 50\<rparr>"
    "rightWall 800 \<lparr>el = 0, x = 790, y = 10, vx = 100, vy = 40, w = 50, h = 50\<rparr>
     = \<lparr>el = 0, x = 750, y = 10, vx = - 60, vy = 40, w = 50, h = 50\<rparr>"
    by (simp_all add: leftWall_def rightWall_def Let_def BOUNCE_def)
  from len out frame clamp pure sides show ?thesis
    by simp
qed

section \<open>Radial impulse\<close>

text \<open>
  C5: for a click at \<open>(clientX, clientY)\<close>, \<open>dx\<close> and \<open>dy\<close> run from the click to the
  body's centre \<open>(x + w / 2, y + h / 2)\<close>, the force is
  \<open>min 3000 (60000 / (dist + 20))\<close>, and the impulse adds
  \<open>(dx / dist) * (force / 1000)\<close> to \<open>vx\<close> and \<open>(dy / dist) * (force / 1000)\<close> to \<open>vy\<close>.
  The change of velocity is a positive multiple of \<open>(dx, dy)\<close>, so it points away from
  the click; a click strictly left of the centre strictly increases \<open>vx\<close>. The impulse
  pass does this to every body of the sequence.
\<close>

theorem radial_impulse:
  "impulse_dx clientX b = (x b + w b / 2) - clientX
   \<and> impulse_dy clientY b = (y b + h b / 2) - clientY
   \<and> impulse_force clientX clientY b = min 3000 (60000 / (impulse_dist clientX clientY b + 20))
   \<and> vx (impulse clientX clientY b) =
       vx b + (impulse_dx clientX b / impulse_dist clientX clientY b)
                * (impulse_force clientX clientY b / 1000)
   \<and> vy (impulse clientX clientY b) =
       vy b + (impulse_dy clientY b / impulse_dist clientX clientY b)
                * (impulse_force clientX clientY b / 1000)
   \<and> (\<exists>k > 0. vx (impulse clientX clientY b) - vx b = k * impulse_dx clientX b
              \<and> vy (impulse clientX clientY b) - vy b = k * impulse_dy clientY b)
   \<and> (clientX < x b + w b / 2 \<longrightarrow> vx b < vx (impulse clientX clientY b))
   \<and> bodies (applyRadialImpulse clientX clientY s) = map (impulse clientX clientY) (bodies s)
   \<and> (i < length (bodies s) \<longrightarrow>
        vx (bodies (applyRadialImpulse clientX clientY s) ! i) =
          vx (bodies s ! i)
            + (impulse_dx clientX (bodies s ! i) / impulse_dist clientX clientY (bodies s ! i))
                * (impulse_force clientX clientY (bodies s ! i) / 1000)
        \<and> vy (bodies (applyRadialImpulse clientX clientY s) ! i) =
          vy (bodies s ! i)
            + (impulse_dy clientY (bodies s ! i) / impulse_dist clientX clientY (bodies s ! i))
                * (impulse_force clientX clientY (bodies s ! i) / 1000)
        \<and> (clientX < x (bodies s ! i) + w (bodies s ! i) / 2 \<longrightarrow>
             vx (bodies s ! i) < vx (bodies (applyRadialImpulse clientX clientY s) ! i)))"
proof -
  have k: "0 < impulse_force clientX clientY b / (1000 * impulse_dist clientX clientY b)" for b
    using impulse_dist_pos[of clientX clientY b] impulse_force_pos[of clientX clientY b] by simp
  have away: "vx (impulse clientX clientY b) - vx b
        = impulse_force clientX clientY b / (1000 * impulse_dist clientX clientY b)
            * impulse_dx clientX b
      \<and> vy (impulse clientX clientY b) - vy b
        = impulse_force clientX clientY b / (1000 * impulse_dist clientX clientY b)
            * impulse_dy clientY b" for b
    by (simp add: impulse_sel mult_ac)
  have right: "clientX < x b + w b / 2 \<longrightarrow> vx b < vx (impulse clientX clientY b)" for b
  proof
    assume "clientX < x b + w b / 2"
    then have "0 < impulse_dx clientX b"
      by (simp add: impulse_dx_def impulse_cx_def)
    with k[of b] have "0 < impulse_force clientX clientY b / (1000 * impulse_dist clientX clientY b)
        * impulse_dx clientX b"
      by (rule mult_pos_pos)
    with away[of b] show "vx b < vx (impulse clientX clientY b)" by linarith
  qed
  from k[of b] away[of b]
  have ex: "\<exists>k > 0. vx (impulse clientX clientY b) - vx b = k * impulse_dx clientX b
              \<and> vy (impulse clientX clientY b) - vy b = k * impulse_dy clientY b"
    by blast
  have one: "impulse_dx clientX b = (x b + w b / 2) - clientX
   \<and> impulse_dy clientY b = (y b + h b / 2) - clientY
   \<and> impulse_force clientX clientY b = min 3000 (60000 / (impulse_dist clientX clientY b + 20))
   \<and> vx (impulse clientX clientY b) =
       vx b + (impulse_dx clientX b / impulse_dist clientX clientY b)
                * (impulse_force clientX clientY b / 1000)
   \<and> vy (impulse clientX clientY b) =
       vy b + (impulse_dy clientY b / impulse_dist clientX clientY b)
                * (impulse_force clientX clientY b / 1000)"
    by (simp add: impulse_sel impulse_dx_def impulse_dy_def impulse_cx_def impulse_cy_def
        impulse_force_def)
  have pass: "bodies (applyRadialImpulse clientX clientY s) = map (impulse clientX clientY) (bodies s)"
    by (rule bodies_applyRadialImpulse)
  have each: "i < length (bodies s) \<longrightarrow>
        vx (bodies (applyRadialImpulse clientX clientY s) ! i) =
          vx (bodies s ! i)
            + (impulse_dx clientX (bodies s ! i) / impulse_dist clientX clientY (bodies s ! i))
                * (impulse_force clientX clientY (bodies s ! i) / 1000)
        \<and> vy (bodies (applyRadialImpulse clientX clientY s) ! i) =
          vy (bodies s ! i)
            + (impulse_dy clientY (bodies s ! i) / impulse_dist clientX clientY (bodies s ! i))
                * (impulse_force clientX clientY (bodies s ! i) / 1000)
        \<and> (clientX < x (bodies s ! i) + w (bodies s ! i) / 2 \<longrightarrow>
             vx (bodies s ! i) < vx (bodies (applyRadialImpulse clientX clientY s) ! i))"
    using right[of "bodies s ! i"] by (simp add: pass impulse_sel)
  from one ex right[of b] pass each show ?thesis
    by blast
qed

theorem radial_impulse_witness:
  "(0::nat) < length (bodies (running [\<lparr>el = 0, x = 5, y = 0, vx = 2, vy = 3, w = 50, h = 50\<rparr>]))
   \<and> (0::real) < x (bodies (running [\<lparr>el = 0, x = 5, y = 0, vx = 2, vy = 3, w = 50, h = 50\<rparr>]) ! 0)
       + w (bodies (running [\<lparr>el = 0, x = 5, y = 0, vx = 2, vy = 3, w = 50, h = 50\<rparr>]) ! 0) / 2
   \<and> vx (bodies (running [\<lparr>el = 0, x = 5, y = 0, vx = 2, vy = 3, w = 50, h = 50\<rparr>]) ! 0)
       < vx (bodies (applyRadialImpulse 0 25
               (running [\<lparr>el = 0, x = 5, y = 0, vx = 2, vy = 3, w = 50, h = 50\<rparr>])) ! 0)
   \<and> bodies (applyRadialImpulse 0 25 (running [\<lparr>el = 0, x = 5, y = 0, vx = 2, vy = 3, w = 50, h = 50\<rparr>]))
       = [\<lparr>el = 0, x = 5, y = 0, vx = 2 + 12 / 10, vy = 3, w = 50, h = 50\<rparr>]
   \<and> (0::real) < x \<lparr>el = 0, x = 5, y = 0, vx = 2, vy = 3, w = 50, h = 50\<rparr>
       + w \<lparr>el = 0, x = 5, y = 0, vx = 2, vy = 3, w = 50, h = 50\<rparr> / 2
   \<and> vx \<lparr>el = 0, x = 5, y = 0, vx = 2, vy = 3, w = 50, h = 50\<rparr>
       < vx (impulse 0 25 \<lparr>el = 0, x = 5, y = 0, vx = 2, vy = 3, w = 50, h = 50\<rparr>)
   \<and> vx (impulse 0 25 \<lparr>el = 0, x = 5, y = 0, vx = 2, vy = 3, w = 50, h = 50\<rparr>) = 2 + 12 / 10
   \<and> vy (impulse 0 25 \<lparr>el = 0, x = 5, y = 0, vx = 2, vy = 3, w = 50, h = 50\<rparr>) = 3"
proof -
  let ?b = "\<lparr>el = 0, x = 5, y = 0, vx = 2, vy = 3, w = 50, h = 50\<rparr>"
  let ?s = "running [?b]"
  have bs: "bodies ?s = [?b]"
    by (simp add: running_def)
  have len: "(0::nat) < length (bodies ?s)"
    by (simp add: bs)
  have left: "(0::real) < x ?b + w ?b / 2" by simp
  have left': "(0::real) < x (bodies ?s ! 0) + w (bodies ?s ! 0) / 2"
    by (simp add: bs)
  have d: "impulse_dist 0 25 ?b = 30"
    by (simp add: impulse_dist_def impulse_dx_def impulse_dy_def impulse_cx_def impulse_cy_def)
  note inst = radial_impulse[where clientX = 0 and clientY = 25 and b = ?b and s = ?s and i = 0]
  from inst left
  have "vx ?b < vx (impulse 0 25 ?b)"
    and "vx (impulse 0 25 ?b) = vx ?b + (impulse_dx 0 ?b / impulse_dist 0 25 ?b)
                * (impulse_force 0 25 ?b / 1000)"
    and "vy (impulse 0 25 ?b) = vy ?b + (impulse_dy 25 ?b / impulse_dist 0 25 ?b)
                * (impulse_force 0 25 ?b / 1000)"
    by blast+
  then have single: "vx ?b < vx (impulse 0 25 ?b)" "vx (impulse 0 25 ?b) = 2 + 12 / 10"
    "vy (impulse 0 25 ?b) = 3"
    by (simp_all add: d impulse_force_def impulse_dx_def impulse_dy_def impulse_cx_def
        impulse_cy_def)
  from inst len left'
  have pushed: "vx (bodies ?s ! 0) < vx (bodies (applyRadialImpulse 0 25 ?s) ! 0)"
    by blast
  from inst have "bodies (applyRadialImpulse 0 25 ?s) = map (impulse 0 25) (bodies ?s)"
    by blast
  then have pass: "bodies (applyRadialImpulse 0 25 ?s)
      = [\<lparr>el = 0, x = 5, y = 0, vx = 2 + 12 / 10, vy = 3, w = 50, h = 50\<rparr>]"
    by (simp add: bs impulse_def Let_def d impulse_force_def impulse_dx_def impulse_dy_def
        impulse_cx_def impulse_cy_def)
  from len left' pushed pass left single show ?thesis
    by blast
qed

text \<open>
  C6, as the specification states it, fails: the distance is not floored to at least 1.
  For the body of size (1, 2) at the origin and a click at (0, 1), half a pixel left of
  its centre, the divisor is 1/2.
\<close>

theorem dist_floor_counterexample:
  "\<not> (1 \<le> impulse_dist 0 1 \<lparr>el = 0, x = 0, y = 0, vx = 0, vy = 30, w = 1, h = 2\<rparr>)"
  by (simp add: impulse_dist_def impulse_dx_def impulse_dy_def impulse_cx_def impulse_cy_def)

text \<open>
  C6, amended: the divisor is \<open>sqrt (dx\<^sup>2 + dy\<^sup>2)\<close>, replaced by 1 only when that root
  is 0. It is positive for every body and every click, so neither the division by
  \<open>dist\<close> nor the one by \<open>dist + 20\<close> is a division by zero; for a click on the body's
  centre it is 1.
\<close>

theorem dist_nonzero:
  "impulse_dist clientX clientY b =
     (if sqrt (impulse_dx clientX b * impulse_dx clientX b
                + impulse_dy clientY b * impulse_dy clientY b) = 0 then 1
      else sqrt (impulse_dx clientX b * impulse_dx clientX b
                  + impulse_dy clientY b * impulse_dy clientY b))
   \<and> 0 < impulse_dist clientX clientY b
   \<and> impulse_dist clientX clientY b \<noteq> 0
   \<and> impulse_dist clientX clientY b + 20 \<noteq> 0
   \<and> (x b + w b / 2 = clientX \<and> y b + h b / 2 = clientY \<longrightarrow> impulse_dist clientX clientY b = 1)"
  using impulse_dist_pos[of clientX clientY b]
  by (simp add: impulse_dist_def Let_def impulse_dx_def impulse_dy_def impulse_cx_def impulse_cy_def)

theorem dist_nonzero_witness:
  "x \<lparr>el = 0, x = 0, y = 0, vx = 0, vy = 30, w = 50, h = 50\<rparr>
     + w \<lparr>el = 0, x = 0, y = 0, vx = 0, vy = 30, w = 50, h = 50\<rparr> / 2 = (25::real)
   \<and> y \<lparr>el = 0, x = 0, y = 0, vx = 0, vy = 30, w = 50, h = 50\<rparr>
     + h \<lparr>el = 0, x = 0, y = 0, vx = 0, vy = 30, w = 50, h = 50\<rparr> / 2 = (25::real)
   \<and> impulse_dist 25 25 \<lparr>el = 0, x = 0, y = 0, vx = 0, vy = 30, w = 50, h = 50\<rparr> = 1"
  using dist_nonzero[where clientX = 25 and clientY = 25
      and b = "\<lparr>el = 0, x = 0, y = 0, vx = 0, vy = 30, w = 50, h = 50\<rparr>"]
  by simp

section \<open>The time step of a frame\<close>

text \<open>
  C7, as the specification states it, fails: there is no lower clamp. With the last
  timestamp at 1000 ms and a frame timestamp of 0 ms the time step is -1.
\<close>

theorem step_dt_counterexample:
  "\<not> (0 \<le> step_dt 0 1000 \<and> step_dt 0 1000 \<le> 0.05)"
  by (simp add: step_dt_def)

text \<open>
  C7, amended: the time step handed to the integrator in a frame is
  \<open>min 0.05 ((now - last) / 1000)\<close>, for timestamps in milliseconds, and \<open>last\<close> becomes
  \<open>now\<close>. It is at most 0.05 for every pair of timestamps, and at least 0 when
  \<open>last \<le> now\<close>; for \<open>now < last\<close> it is negative.
\<close>

theorem step_dt_capped:
  "bodies (step now s) =
     map (stepBody (step_dt now (last_t s)) (pageWidth_of s) (pageHeight_of s)) (bodies s)
   \<and> last_t (step now s) = now
   \<and> step_dt now lst = min 0.05 ((now - lst) / 1000)
   \<and> step_dt now lst \<le> 0.05
   \<and> (lst \<le> now \<longrightarrow> 0 \<le> step_dt now lst)
   \<and> (now < lst \<longrightarrow> step_dt now lst < 0)"
  by (simp add: bodies_step last_t_step step_dt_def)

theorem step_dt_capped_witness:
  "(1000::real) \<le> 1016 \<and> step_dt 1016 1000 = 16 / 1000 \<and> 0 \<le> step_dt 1016 1000
   \<and> (1000::real) < 2000 \<and> step_dt 1000 2000 = - 1
   \<and> step_dt 5000 1000 = 0.05"
  using step_dt_capped[where now = 1016 and lst = 1000]
    step_dt_capped[where now = 1000 and lst = 2000]
  by (simp add: step_dt_def)

section \<open>Rejected activations\<close>

text \<open>
  C8: activation returns null and leaves the whole state, with the body sequence and the
  activation set, as it was when the element is null, is already activated, has an
  excluded tag, has display \<open>none\<close>, visibility \<open>hidden\<close> or opacity \<open>0\<close>, or has a
  bounding width or height of 0. A second activation of the same element always returns
  null and changes nothing, so two activations of an element on a page without bodies
  leave one body, not two.
\<close>

theorem activate_rejects:
  "activateElement None s = (None, s)
   \<and> (e \<in> activeSet s \<or> tagName (doc s e) \<in> excludeTags \<or> cs_display (doc s e) = ''none''
        \<or> cs_visibility (doc s e) = ''hidden'' \<or> cs_opacity (doc s e) = ''0''
        \<or> rect_width (doc s e) = 0 \<or> rect_height (doc s e) = 0 \<longrightarrow>
      activateElement (Some e) s = (None, s))
   \<and> activateElement eo (snd (activateElement eo s)) = (None, snd (activateElement eo s))
   \<and> (bodies s = [] \<and> fst (activateElement eo s) \<noteq> None \<longrightarrow>
        length (bodies (snd (activateElement eo s))) = 1
        \<and> length (bodies (snd (activateElement eo (snd (activateElement eo s))))) = 1)"
proof -
  have one: "length (bodies (snd (activateElement eo s))) = 1
        \<and> length (bodies (snd (activateElement eo (snd (activateElement eo s))))) = 1"
    if "bodies s = []" "fst (activateElement eo s) \<noteq> None"
    using activate_cases[of eo s] that by (auto simp: activate_twice)
  show ?thesis
    using one by (simp add: activate_null activate_rejected activate_twice)
qed

theorem activate_rejects_witness:
  "rect_width (doc flat_state 0) = 0
   \<and> activateElement (Some 0) flat_state = (None, flat_state)
   \<and> bodies demo_state = []
   \<and> fst (activateElement (Some 0) demo_state) \<noteq> None
   \<and> length (bodies (snd (activateElement (Some 0)
        (snd (activateElement (Some 0) demo_state))))) = 1"
proof -
  have flat: "rect_width (doc flat_state 0) = 0"
    by (simp add: flat_state_def demo_state_def)
  have empty: "bodies demo_state = []"
    by (simp add: demo_state_def)
  have ok: "fst (activateElement (Some 0) demo_state) \<noteq> None"
    by (simp add: activateElement_def demo_state_def demo_element_def excludeTags_def Let_def)
  from activate_rejects[where e = 0 and s = flat_state] flat
  have r: "activateElement (Some 0) flat_state = (None, flat_state)" by blast
  from activate_rejects[where eo = "Some 0" and s = demo_state] empty ok
  have "length (bodies (snd (activateElement (Some 0)
        (snd (activateElement (Some 0) demo_state))))) = 1" by blast
  with flat empty ok r show ?thesis by blast
qed

section \<open>What an impulse pass leaves alone\<close>

text \<open>
  C9: an impulse pass keeps the length of the body sequence, every body's element,
  position and size, the activation set and the document; the state after it is the state
  before it with \<open>vx\<close> and \<open>vy\<close> of each body replaced.
\<close>

theorem impulse_frame:
  "length (bodies (applyRadialImpulse clientX clientY s)) = length (bodies s)
   \<and> map el (bodies (applyRadialImpulse clientX clientY s)) = map el (bodies s)
   \<and> map x (bodies (applyRadialImpulse clientX clientY s)) = map x (bodies s)
   \<and> map y (bodies (applyRadialImpulse clientX clientY s)) = map y (bodies s)
   \<and> map w (bodies (applyRadialImpulse clientX clientY s)) = map w (bodies s)
   \<and> map h (bodies (applyRadialImpulse clientX clientY s)) = map h (bodies s)
   \<and> activeSet (applyRadialImpulse clientX clientY s) = activeSet s
   \<and> doc (applyRadialImpulse clientX clientY s) = doc s
   \<and> applyRadialImpulse clientX clientY s
       = s\<lparr>bodies := map (\<lambda>b. b\<lparr>vx := vx (impulse clientX clientY b),
                                  vy := vy (impulse clientX clientY b)\<rparr>) (bodies s)\<rparr>"
  by (simp add: applyRadialImpulse_def impulse_sel comp_def)

section \<open>A click on a body's centre\<close>

text \<open>
  C10, as stated, fails in its last part: for a click on the centre of a body the force is
  not the cap of 3000.
\<close>

theorem centre_force_counterexample:
  "impulse_force 25 25 \<lparr>el = 0, x = 0, y = 0, vx = 0, vy = 30, w = 50, h = 50\<rparr> \<noteq> 3000"
  by (simp add: impulse_force_def impulse_dist_def impulse_dx_def impulse_dy_def
      impulse_cx_def impulse_cy_def)

text \<open>
  C10, amended: for a click on the centre of a body, \<open>dx\<close> and \<open>dy\<close> are 0, the
  distance is replaced by 1, both added terms are 0 and the body, with its velocity, is
  unchanged, although the force is not 0: it is \<open>60000 / 21\<close>, below the cap of 3000.
\<close>

theorem impulse_at_centre:
  "x b + w b / 2 = clientX \<and> y b + h b / 2 = clientY \<longrightarrow>
     impulse_dx clientX b = 0 \<and> impulse_dy clientY b = 0
     \<and> impulse_dist clientX clientY b = 1
     \<and> (impulse_dx clientX b / impulse_dist clientX clientY b)
          * (impulse_force clientX clientY b / 1000) = 0
     \<and> (impulse_dy clientY b / impulse_dist clientX clientY b)
          * (impulse_force clientX clientY b / 1000) = 0
     \<and> impulse clientX clientY b = b
     \<and> impulse_force clientX clientY b = 60000 / 21
     \<and> impulse_force clientX clientY b < 3000"
  by (auto simp: impulse_def impulse_force_def impulse_dist_def impulse_dx_def impulse_dy_def
      impulse_cx_def impulse_cy_def Let_def)

theorem impulse_at_centre_witness:
  "x \<lparr>el = 0, x = 0, y = 0, vx = 4, vy = 30, w = 50, h = 50\<rparr>
     + w \<lparr>el = 0, x = 0, y = 0, vx = 4, vy = 30, w = 50, h = 50\<rparr> / 2 = (25::real)
   \<and> y \<lparr>el = 0, x = 0, y = 0, vx = 4, vy = 30, w = 50, h = 50\<rparr>
     + h \<lparr>el = 0, x = 0, y = 0, vx = 4, vy = 30, w = 50, h = 50\<rparr> / 2 = (25::real)
   \<and> impulse 25 25 \<lparr>el = 0, x = 0, y = 0, vx = 4, vy = 30, w = 50, h = 50\<rparr>
       = \<lparr>el = 0, x = 0, y = 0, vx = 4, vy = 30, w = 50, h = 50\<rparr>"
  using impulse_at_centre[where clientX = 25 and clientY = 25
      and b = "\<lparr>el = 0, x = 0, y = 0, vx = 4, vy = 30, w = 50, h = 50\<rparr>"]
  by simp

end
